theory Spec2Isabelle
  imports Main "HOL-Library.AList"
begin

section \<open>Strings, dates and the durable map\<close>

text \<open>
  A JavaScript string is modelled as a \<^typ>\<open>string\<close>, one \<^typ>\<open>char\<close> per code unit
  below 256. \<open>String.prototype.trim\<close> removes the white space and line terminator
  code units at both ends; below 256 these are TAB, LF, VT, FF, CR, SPACE and NBSP.
\<close>

definition isWhiteSpace :: "char \<Rightarrow> bool" where
  "isWhiteSpace c =
     (c = CHR 0x09 \<or> c = CHR 0x0A \<or> c = CHR 0x0B \<or> c = CHR 0x0C \<or> c = CHR 0x0D
      \<or> c = CHR 0x20 \<or> c = CHR 0xA0)"

definition trim :: "string \<Rightarrow> string" where
  "trim s = rev (dropWhile isWhiteSpace (rev (dropWhile isWhiteSpace s)))"

text \<open>
  A \<open>Date\<close> is its number of milliseconds. \<open>getCurrentDate()\<close> reads the clock of the
  host; its result is the parameter \<open>now\<close> of every operation that calls it, and the
  result of \<open>uuidv4()\<close> is the parameter \<open>newId\<close>.
\<close>

type_synonym Date = nat

text \<open>
  \<open>StableBTreeMap<string, V>\<close> belongs to the host library. It is modelled by the list
  of its entries, in the order \<open>values()\<close> yields them; \<open>insert\<close> replaces the value of
  a key that is present and adds the entry otherwise, \<open>remove\<close> gives back the removed
  value as an \<open>Opt\<close>. Where the library places a new key among the others is not
  modelled: a new entry goes to the end of the list. The general results below hold for
  every list, so for every order of the entries, and the concrete ones read the map by
  key or scan objects that all have the field they are asked for.
\<close>

type_synonym 'v StableBTreeMap = "(string \<times> 'v) list"

definition btree_values :: "'v StableBTreeMap \<Rightarrow> 'v list" where
  "btree_values m = map snd m"

definition btree_get :: "'v StableBTreeMap \<Rightarrow> string \<Rightarrow> 'v option" where
  "btree_get m k = map_of m k"

definition btree_containsKey :: "'v StableBTreeMap \<Rightarrow> string \<Rightarrow> bool" where
  "btree_containsKey m k = (map_of m k \<noteq> None)"

definition btree_insert :: "string \<Rightarrow> 'v \<Rightarrow> 'v StableBTreeMap \<Rightarrow> 'v StableBTreeMap" where
  "btree_insert k v m = AList.update k v m"

definition btree_remove :: "string \<Rightarrow> 'v StableBTreeMap \<Rightarrow> 'v option \<times> 'v StableBTreeMap" where
  "btree_remove k m = (map_of m k, AList.delete k m)"

text \<open>A template literal prints an object payload as \<open>[object Object]\<close>.\<close>

definition objectToString :: string where
  "objectToString = ''[object Object]''"

definition newline :: string where
  "newline = [CHR 0x0A]"

definition quote :: string where
  "quote = [CHR 0x27]"


section \<open>One map for every module\<close>

text \<open>
  The four modules create their storage with the same memory id:
  \<^verbatim>\<open>const usersStorage    = StableBTreeMap<string, User>(0);\<close>
  \<^verbatim>\<open>const outcomesStorage = StableBTreeMap<string, Outcome>(0);\<close>
  \<^verbatim>\<open>const coursesStorage  = StableBTreeMap<string, Course>(0);\<close>
  \<^verbatim>\<open>const sessionsStorage = StableBTreeMap<string, Session>(0);\<close>
  so \<open>usersStorage\<close>, \<open>outcomesStorage\<close> and \<open>coursesStorage\<close> are one map, and
  every operation below takes that one map, whatever the name under which its module
  knows it. The classes \<open>User\<close>, \<open>Outcome\<close> and \<open>Course\<close> only type the values at
  compile time: what a module reads from the map is an object with the fields of
  whichever operations wrote it. A stored object always has \<open>id\<close>, \<open>createdAt\<close> and
  \<open>updatedAt\<close>; each other field is present (\<open>Some\<close>) or \<open>undefined\<close> (\<open>None\<close>).
  The field \<open>type\<close> is compared with \<open>null\<close> by the source, so its value is an option
  itself.
\<close>

datatype OutcomeType = SKILL | CERTIFICATION | CERTIFIED_SKILL

record Stored =
  r_id :: string
  r_name :: "string option"
  r_pseudo :: "string option"
  r_avatarURL :: "string option"
  r_title :: "string option"
  r_type :: "OutcomeType option option"
  r_outcomes :: "string list option"
  r_creatorId :: "string option"
  r_createdAt :: Date
  r_updatedAt :: "Date option"

type_synonym Memory = "Stored StableBTreeMap"

text \<open>
  A call either returns a value or throws: \<open>x.trim()\<close> on a field \<open>x\<close> that is
  \<open>undefined\<close> raises a \<open>TypeError\<close>, which no function of the source catches.
\<close>

datatype 'a reply = Threw | Returned 'a

fun failed :: "(string + 'a) reply \<Rightarrow> bool" where
  "failed Threw = True"
| "failed (Returned (Inl message)) = True"
| "failed (Returned (Inr result)) = False"


section \<open>User\<close>

record UserPayload =
  up_name :: string
  up_pseudo :: string
  up_avatarURL :: string

definition getUsers :: "Memory \<Rightarrow> Stored list" where
  "getUsers usersStorage = btree_values usersStorage"

text \<open>The \<open>Opt\<close> object that \<open>get\<close> returns is truthy, so \<open>||\<close> never yields the message.\<close>

definition getUser :: "Memory \<Rightarrow> string \<Rightarrow> Stored option" where
  "getUser usersStorage userId = btree_get usersStorage userId"

fun checkPseudo_scan :: "Stored list \<Rightarrow> string \<Rightarrow> bool reply" where
  "checkPseudo_scan [] pseudo = Returned False"
| "checkPseudo_scan (user # rest) pseudo =
     (case r_pseudo user of
        None \<Rightarrow> Threw
      | Some userPseudo \<Rightarrow>
          if trim userPseudo = trim pseudo then Returned True
          else checkPseudo_scan rest pseudo)"

definition checkPseudo :: "Memory \<Rightarrow> string \<Rightarrow> bool reply" where
  "checkPseudo usersStorage pseudo = checkPseudo_scan (btree_values usersStorage) pseudo"

definition checkUserId :: "Memory \<Rightarrow> string \<Rightarrow> bool" where
  "checkUserId usersStorage userId = btree_containsKey usersStorage userId"

fun getIdFromPseudo_scan :: "Stored list \<Rightarrow> string \<Rightarrow> string option" where
  "getIdFromPseudo_scan [] pseudo = None"
| "getIdFromPseudo_scan (user # rest) pseudo =
     (if r_pseudo user = Some pseudo then Some (r_id user)
      else getIdFromPseudo_scan rest pseudo)"

definition getIdFromPseudo :: "Memory \<Rightarrow> string \<Rightarrow> string option" where
  "getIdFromPseudo usersStorage pseudo = getIdFromPseudo_scan (btree_values usersStorage) pseudo"

definition checkPayload :: "UserPayload \<Rightarrow> bool" where
  "checkPayload payload =
     (length (trim (up_name payload)) + length (trim (up_pseudo payload)) > 2)"

definition addUser_invalid :: "UserPayload \<Rightarrow> string" where
  "addUser_invalid payload =
     ''Error: invalid payload : '' @ newline @ '' name='' @ up_name payload @ '' '' @ newline
       @ '' pseudo='' @ up_pseudo payload"

definition addUser_exists :: "UserPayload \<Rightarrow> string" where
  "addUser_exists payload =
     ''Error: can'' @ quote @ ''t create user cause '' @ up_pseudo payload @ '' already exists''"

definition addUser ::
  "Memory \<Rightarrow> string \<Rightarrow> Date \<Rightarrow> UserPayload \<Rightarrow> (string + Stored) reply \<times> Memory"
where
  "addUser usersStorage newId now payload =
     (if \<not> checkPayload payload
        then (Returned (Inl (addUser_invalid payload)), usersStorage)
      else
        (case checkPseudo usersStorage (up_pseudo payload) of
           Threw \<Rightarrow> (Threw, usersStorage)
         | Returned found \<Rightarrow>
             if found then (Returned (Inl (addUser_exists payload)), usersStorage)
             else
               let user =
                 \<lparr>r_id = newId, r_name = Some (up_name payload),
                  r_pseudo = Some (up_pseudo payload),
                  r_avatarURL = Some (up_avatarURL payload), r_title = None, r_type = None,
                  r_outcomes = None, r_creatorId = None, r_createdAt = now,
                  r_updatedAt = None\<rparr>
               in (Returned (Inr user), btree_insert (r_id user) user usersStorage)))"

definition updateUser_notFound :: "string \<Rightarrow> string" where
  "updateUser_notFound userId =
     ''Error: can'' @ quote @ ''t update user cause no user found matching id='' @ userId @ '')''"

definition updateUser_exists :: "UserPayload \<Rightarrow> string" where
  "updateUser_exists payload =
     ''Error: can'' @ quote @ ''t update user cause pseudo='' @ up_pseudo payload
       @ '' already exists''"

definition updateUser_invalid :: string where
  "updateUser_invalid =
     ''Error: can'' @ quote @ ''t update user cause unvalid payload='' @ objectToString"

text \<open>
  \<open>getUser(userId).Some\<close> is read after \<open>checkUserId(userId)\<close> has held, so the lookup
  is a \<open>Some\<close> there (lemma \<open>checkUserId_getUser\<close> below); the other branch of the
  \<open>case\<close> is never taken and leaves the map as it is. In the object literal the spread
  of \<open>user\<close> follows \<open>id: userId\<close>, so the result keeps every field of the stored
  object that the payload does not name, its \<open>id\<close> included.
\<close>

definition updateUser ::
  "Memory \<Rightarrow> string \<Rightarrow> Date \<Rightarrow> UserPayload \<Rightarrow> (string + Stored) reply \<times> Memory"
where
  "updateUser usersStorage userId now payload =
     (if \<not> checkUserId usersStorage userId
        then (Returned (Inl (updateUser_notFound userId)), usersStorage)
      else
        (case checkPseudo usersStorage (up_pseudo payload) of
           Threw \<Rightarrow> (Threw, usersStorage)
         | Returned found \<Rightarrow>
             if found then (Returned (Inl (updateUser_exists payload)), usersStorage)
             else if \<not> checkPayload payload
               then (Returned (Inl updateUser_invalid), usersStorage)
             else
               (case getUser usersStorage userId of
                  None \<Rightarrow> (Returned (Inl (updateUser_notFound userId)), usersStorage)
                | Some user \<Rightarrow>
                    let updatedUser =
                      user\<lparr>r_name := Some (up_name payload),
                           r_pseudo := Some (up_pseudo payload),
                           r_avatarURL := Some (up_avatarURL payload),
                           r_updatedAt := Some now\<rparr>
                    in (Returned (Inr updatedUser),
                        btree_insert userId updatedUser usersStorage))))"

definition removeUser_notFound :: "string \<Rightarrow> string" where
  "removeUser_notFound userId =
     ''can'' @ quote @ ''t remove user cause no user found matching id='' @ userId"

definition removeUser ::
  "Memory \<Rightarrow> string \<Rightarrow> (string + Stored option) reply \<times> Memory"
where
  "removeUser usersStorage userId =
     (if \<not> checkUserId usersStorage userId
        then (Returned (Inl (removeUser_notFound userId)), usersStorage)
      else
        (case btree_remove userId usersStorage of
           (removed, m) \<Rightarrow> (Returned (Inr removed), m)))"


section \<open>Outcome\<close>

record OutcomePayload =
  op_title :: string
  op_type :: "OutcomeType option"

definition getOutcomes :: "Memory \<Rightarrow> Stored list" where
  "getOutcomes outcomesStorage = btree_values outcomesStorage"

definition getOutcome :: "Memory \<Rightarrow> string \<Rightarrow> Stored option" where
  "getOutcome outcomesStorage ident = btree_get outcomesStorage ident"

definition checkOutcomePayload :: "OutcomePayload \<Rightarrow> bool" where
  "checkOutcomePayload payload =
     (length (trim (op_title payload)) > 0 \<and> op_type payload \<noteq> None)"

fun isExistingOutcomeTitle_scan :: "Stored list \<Rightarrow> string \<Rightarrow> bool reply" where
  "isExistingOutcomeTitle_scan [] title = Returned False"
| "isExistingOutcomeTitle_scan (outcome # rest) title =
     (case r_title outcome of
        None \<Rightarrow> Threw
      | Some outcomeTitle \<Rightarrow>
          if trim outcomeTitle = trim title then Returned True
          else isExistingOutcomeTitle_scan rest title)"

definition isExistingOutcomeTitle :: "Memory \<Rightarrow> string \<Rightarrow> bool reply" where
  "isExistingOutcomeTitle outcomesStorage title =
     isExistingOutcomeTitle_scan (btree_values outcomesStorage) title"

definition chetOutcomeId :: "Memory \<Rightarrow> string \<Rightarrow> bool" where
  "chetOutcomeId outcomesStorage ident = btree_containsKey outcomesStorage ident"

definition unexpectedPayload :: string where
  "unexpectedPayload =
     ''Error: unexpected values in payload: '' @ newline @ '' '' @ objectToString"

definition outcomeTitle_exists :: "string \<Rightarrow> string" where
  "outcomeTitle_exists title =
     ''Error: title '' @ quote @ title @ quote @ '' already exists ''"

definition outcome_notFound :: "string \<Rightarrow> string" where
  "outcome_notFound ident = ''Error: no outcome found with id='' @ ident"

definition addOutcome ::
  "Memory \<Rightarrow> string \<Rightarrow> Date \<Rightarrow> OutcomePayload \<Rightarrow> (string + Stored) reply \<times> Memory"
where
  "addOutcome outcomesStorage newId now payload =
     (if \<not> checkOutcomePayload payload
        then (Returned (Inl unexpectedPayload), outcomesStorage)
      else
        (case isExistingOutcomeTitle outcomesStorage (op_title payload) of
           Threw \<Rightarrow> (Threw, outcomesStorage)
         | Returned found \<Rightarrow>
             if found
               then (Returned (Inl (outcomeTitle_exists (op_title payload))), outcomesStorage)
             else
               let outcome =
                 \<lparr>r_id = newId, r_name = None, r_pseudo = None, r_avatarURL = None,
                  r_title = Some (op_title payload), r_type = Some (op_type payload),
                  r_outcomes = None, r_creatorId = None, r_createdAt = now,
                  r_updatedAt = None\<rparr>
               in (Returned (Inr outcome),
                   btree_insert (r_id outcome) outcome outcomesStorage)))"

text \<open>
  As in \<open>updateUser\<close>, \<open>outcomesStorage.get(id).Some\<close> is read after \<open>chetOutcomeId(id)\<close>
  has held (lemma \<open>chetOutcomeId_getOutcome\<close>); the \<open>None\<close> branch is never taken.
  In the condition, \<open>&&\<close> evaluates the scan first; \<open>outcome.title != payload.title\<close>
  holds when the stored object has no \<open>title\<close>.
\<close>

definition updateOutcome ::
  "Memory \<Rightarrow> string \<Rightarrow> Date \<Rightarrow> OutcomePayload \<Rightarrow> (string + Stored) reply \<times> Memory"
where
  "updateOutcome outcomesStorage ident now payload =
     (if \<not> chetOutcomeId outcomesStorage ident
        then (Returned (Inl (outcome_notFound ident)), outcomesStorage)
      else if \<not> checkOutcomePayload payload
        then (Returned (Inl unexpectedPayload), outcomesStorage)
      else
        (case btree_get outcomesStorage ident of
           None \<Rightarrow> (Returned (Inl (outcome_notFound ident)), outcomesStorage)
         | Some outcome \<Rightarrow>
             (case isExistingOutcomeTitle outcomesStorage (op_title payload) of
                Threw \<Rightarrow> (Threw, outcomesStorage)
              | Returned found \<Rightarrow>
                  if found \<and> r_title outcome \<noteq> Some (op_title payload)
                    then (Returned (Inl (outcomeTitle_exists (op_title payload))),
                          outcomesStorage)
                  else
                    let updatedOutcome =
                      outcome\<lparr>r_title := Some (op_title payload),
                              r_type := Some (op_type payload),
                              r_updatedAt := Some now\<rparr>
                    in (Returned (Inr updatedOutcome),
                        btree_insert ident updatedOutcome outcomesStorage))))"

definition removeOutcome ::
  "Memory \<Rightarrow> string \<Rightarrow> (string + Stored option) reply \<times> Memory"
where
  "removeOutcome outcomesStorage ident =
     (if \<not> chetOutcomeId outcomesStorage ident
        then (Returned (Inl (outcome_notFound ident)), outcomesStorage)
      else
        (case btree_remove ident outcomesStorage of
           (removed, m) \<Rightarrow> (Returned (Inr removed), m)))"


section \<open>Course\<close>

record CoursePayload =
  cp_title :: string
  cp_outcomes :: "string list"
  cp_creatorId :: string

definition getCourses :: "Memory \<Rightarrow> Stored list" where
  "getCourses coursesStorage = btree_values coursesStorage"

definition getCourse :: "Memory \<Rightarrow> string \<Rightarrow> Stored option" where
  "getCourse coursesStorage ident = btree_get coursesStorage ident"

definition checkCourseId :: "Memory \<Rightarrow> string \<Rightarrow> bool" where
  "checkCourseId coursesStorage courseId = btree_containsKey coursesStorage courseId"

text \<open>
  \<open>checkCoursePayload\<close> calls \<open>checkUserId\<close> and \<open>chetOutcomeId\<close>, which ask the maps
  of the other two modules: the same map of memory id 0, the parameter \<open>memory\<close>.
\<close>

fun checkCoursePayload_scan :: "Memory \<Rightarrow> string list \<Rightarrow> bool" where
  "checkCoursePayload_scan memory [] = True"
| "checkCoursePayload_scan memory (outcomeId # rest) =
     (if \<not> chetOutcomeId memory outcomeId then False
      else checkCoursePayload_scan memory rest)"

definition checkCoursePayload :: "Memory \<Rightarrow> CoursePayload \<Rightarrow> bool" where
  "checkCoursePayload memory payload =
     (if length (trim (cp_title payload)) \<ge> 0 \<and> checkUserId memory (cp_creatorId payload)
        then checkCoursePayload_scan memory (cp_outcomes payload)
      else False)"

fun isExistingCourseTitle_scan :: "Stored list \<Rightarrow> string \<Rightarrow> bool reply" where
  "isExistingCourseTitle_scan [] title = Returned False"
| "isExistingCourseTitle_scan (course # rest) title =
     (case r_title course of
        None \<Rightarrow> Threw
      | Some courseTitle \<Rightarrow>
          if trim courseTitle = trim title then Returned True
          else isExistingCourseTitle_scan rest title)"

definition isExistingCourseTitle :: "Memory \<Rightarrow> string \<Rightarrow> bool reply" where
  "isExistingCourseTitle coursesStorage title =
     isExistingCourseTitle_scan (btree_values coursesStorage) title"

definition course_exists :: "string \<Rightarrow> string" where
  "course_exists title = ''Error: course '' @ quote @ title @ quote @ '' already exists''"

definition course_notFound :: "string \<Rightarrow> string" where
  "course_notFound ident = ''Error: no course with id='' @ ident @ '' found''"

definition addCourse ::
  "Memory \<Rightarrow> string \<Rightarrow> Date \<Rightarrow> CoursePayload \<Rightarrow> (string + Stored) reply \<times> Memory"
where
  "addCourse coursesStorage newId now payload =
     (case isExistingCourseTitle coursesStorage (cp_title payload) of
        Threw \<Rightarrow> (Threw, coursesStorage)
      | Returned found \<Rightarrow>
          if found then (Returned (Inl (course_exists (cp_title payload))), coursesStorage)
          else if \<not> checkCoursePayload coursesStorage payload
            then (Returned (Inl unexpectedPayload), coursesStorage)
          else
            let course =
              \<lparr>r_id = newId, r_name = None, r_pseudo = None, r_avatarURL = None,
               r_title = Some (cp_title payload), r_type = None,
               r_outcomes = Some (cp_outcomes payload),
               r_creatorId = Some (cp_creatorId payload), r_createdAt = now,
               r_updatedAt = None\<rparr>
            in (Returned (Inr course), btree_insert (r_id course) course coursesStorage))"

text \<open>
  The first guard of \<open>updateCourse\<close> tests \<open>checkCourseId(id)\<close> and the second its
  negation, as the source has them. The rest of the body is kept as written; its lookup
  \<open>getCourse(id).Some\<close> has the two branches of the \<open>Opt\<close>.
\<close>

definition updateCourse ::
  "Memory \<Rightarrow> string \<Rightarrow> Date \<Rightarrow> CoursePayload \<Rightarrow> (string + Stored) reply \<times> Memory"
where
  "updateCourse coursesStorage ident now payload =
     (if checkCourseId coursesStorage ident
        then (Returned (Inl (course_notFound ident)), coursesStorage)
      else if \<not> checkCourseId coursesStorage ident
        then (Returned (Inl unexpectedPayload), coursesStorage)
      else
        (case getCourse coursesStorage ident of
           None \<Rightarrow> (Returned (Inl (course_notFound ident)), coursesStorage)
         | Some course \<Rightarrow>
             let updatedCourse =
               course\<lparr>r_title := Some (cp_title payload),
                      r_outcomes := Some (cp_outcomes payload),
                      r_creatorId := Some (cp_creatorId payload),
                      r_updatedAt := Some now\<rparr>
             in (Returned (Inr updatedCourse),
                 btree_insert ident updatedCourse coursesStorage)))"

text \<open>\<open>coursesStorage.remove(id).Some || 'not found'\<close>: the removed object, or the text.\<close>

definition removeCourse ::
  "Memory \<Rightarrow> string \<Rightarrow> (string + Stored) reply \<times> Memory"
where
  "removeCourse coursesStorage ident =
     (if \<not> checkCourseId coursesStorage ident
        then (Returned (Inl (course_notFound ident)), coursesStorage)
      else
        (case btree_remove ident coursesStorage of
           (Some course, m) \<Rightarrow> (Returned (Inr course), m)
         | (None, m) \<Rightarrow> (Returned (Inl ''not found''), m)))"


section \<open>Sequences of calls\<close>

text \<open>
  The calls a client can make, each with what the host supplies to it: the identifier
  \<open>uuidv4()\<close> would return and the date \<open>getCurrentDate()\<close> would return. Every call
  acts on the one map; a call that throws leaves it as it was.
\<close>

datatype Call =
    AddUser string Date UserPayload
  | UpdateUser string Date UserPayload
  | RemoveUser string
  | AddOutcome string Date OutcomePayload
  | UpdateOutcome string Date OutcomePayload
  | RemoveOutcome string
  | AddCourse string Date CoursePayload
  | UpdateCourse string Date CoursePayload
  | RemoveCourse string

fun call :: "Memory \<Rightarrow> Call \<Rightarrow> Memory" where
  "call memory (AddUser newId now p) = snd (addUser memory newId now p)"
| "call memory (UpdateUser userId now p) = snd (updateUser memory userId now p)"
| "call memory (RemoveUser userId) = snd (removeUser memory userId)"
| "call memory (AddOutcome newId now p) = snd (addOutcome memory newId now p)"
| "call memory (UpdateOutcome ident now p) = snd (updateOutcome memory ident now p)"
| "call memory (RemoveOutcome ident) = snd (removeOutcome memory ident)"
| "call memory (AddCourse newId now p) = snd (addCourse memory newId now p)"
| "call memory (UpdateCourse ident now p) = snd (updateCourse memory ident now p)"
| "call memory (RemoveCourse ident) = snd (removeCourse memory ident)"

definition run :: "Call list \<Rightarrow> Memory" where
  "run calls = foldl call [] calls"

text \<open>
  The unique field of a stored object, trimmed: its pseudo, or its title. No two
  objects of a map that are stored under different keys and have the field agree on it.
\<close>

definition pseudoKey :: "Stored \<Rightarrow> string option" where
  "pseudoKey object = map_option trim (r_pseudo object)"

definition titleKey :: "Stored \<Rightarrow> string option" where
  "titleKey object = map_option trim (r_title object)"

definition uniqueBy :: "('v \<Rightarrow> 'a option) \<Rightarrow> 'v StableBTreeMap \<Rightarrow> bool" where
  "uniqueBy f m =
     (\<forall>i j u v. btree_get m i = Some u \<longrightarrow> btree_get m j = Some v \<longrightarrow> i \<noteq> j
        \<longrightarrow> f u \<noteq> None \<longrightarrow> f u \<noteq> f v)"

definition uniqueFields :: "Memory \<Rightarrow> bool" where
  "uniqueFields memory = (uniqueBy pseudoKey memory \<and> uniqueBy titleKey memory)"


section \<open>Sample data\<close>

definition adaUser :: Stored where
  "adaUser =
     \<lparr>r_id = ''u1'', r_name = Some ''Ada'', r_pseudo = Some ''ada99'', r_avatarURL = Some ''x'',
      r_title = None, r_type = None, r_outcomes = None, r_creatorId = None,
      r_createdAt = 1, r_updatedAt = None\<rparr>"

definition cyUser :: Stored where
  "cyUser =
     \<lparr>r_id = ''u3'', r_name = Some ''Cy'', r_pseudo = Some ''cy7'', r_avatarURL = Some ''z'',
      r_title = None, r_type = None, r_outcomes = None, r_creatorId = None,
      r_createdAt = 5, r_updatedAt = None\<rparr>"

definition adaUpdated :: Stored where
  "adaUpdated =
     \<lparr>r_id = ''u1'', r_name = Some ''Ada L'', r_pseudo = Some ''adaL'',
      r_avatarURL = Some ''y'', r_title = None, r_type = None, r_outcomes = None,
      r_creatorId = None, r_createdAt = 1, r_updatedAt = Some 9\<rparr>"

definition typingOutcome :: Stored where
  "typingOutcome =
     \<lparr>r_id = ''o1'', r_name = None, r_pseudo = None, r_avatarURL = None,
      r_title = Some ''Typing'', r_type = Some (Some SKILL), r_outcomes = None,
      r_creatorId = None, r_createdAt = 2, r_updatedAt = None\<rparr>"

definition diplomaOutcome :: Stored where
  "diplomaOutcome =
     \<lparr>r_id = ''o2'', r_name = None, r_pseudo = None, r_avatarURL = None,
      r_title = Some ''Diploma'', r_type = Some (Some CERTIFICATION), r_outcomes = None,
      r_creatorId = None, r_createdAt = 4, r_updatedAt = None\<rparr>"

definition typingUpdated :: Stored where
  "typingUpdated =
     \<lparr>r_id = ''o1'', r_name = None, r_pseudo = None, r_avatarURL = None,
      r_title = Some ''Typing'', r_type = Some (Some CERTIFIED_SKILL), r_outcomes = None,
      r_creatorId = None, r_createdAt = 2, r_updatedAt = Some 9\<rparr>"

text \<open>
  A course can only be added while the map holds no user (the title scan throws at an
  object without \<open>title\<close>), so the creator of the sample course is the id of the
  outcome, which \<open>checkUserId\<close> finds in the map.
\<close>

definition introCourse :: Stored where
  "introCourse =
     \<lparr>r_id = ''c1'', r_name = None, r_pseudo = None, r_avatarURL = None,
      r_title = Some ''Intro'', r_type = None, r_outcomes = Some [''o1''],
      r_creatorId = Some ''o1'', r_createdAt = 3, r_updatedAt = None\<rparr>"

definition advCourse :: Stored where
  "advCourse =
     \<lparr>r_id = ''c3'', r_name = None, r_pseudo = None, r_avatarURL = None,
      r_title = Some ''Adv'', r_type = None, r_outcomes = Some [''o1'', ''o2''],
      r_creatorId = Some ''o2'', r_createdAt = 7, r_updatedAt = None\<rparr>"

definition someUsers :: Memory where
  "someUsers = [(''u1'', adaUser)]"

definition someOutcomes :: Memory where
  "someOutcomes = [(''o1'', typingOutcome)]"

definition someCourses :: Memory where
  "someCourses = [(''o1'', typingOutcome), (''c1'', introCourse)]"

text \<open>
  Calls on an empty map that begin with a user: the second user and the update of the
  third ask for a pseudo that is taken, the outcome and the course meet the stored users
  in their title scan and throw, and the last call removes a key that was never stored.
\<close>

definition userCalls :: "Call list" where
  "userCalls =
     [AddUser ''u1'' 1 \<lparr>up_name = ''Ada'', up_pseudo = ''ada99'', up_avatarURL = ''x''\<rparr>,
      AddUser ''u2'' 4 \<lparr>up_name = ''Bea'', up_pseudo = '' ada99 '', up_avatarURL = ''y''\<rparr>,
      AddUser ''u3'' 5 \<lparr>up_name = ''Cy'', up_pseudo = ''cy7'', up_avatarURL = ''z''\<rparr>,
      UpdateUser ''u3'' 6 \<lparr>up_name = ''Cy'', up_pseudo = ''ada99'', up_avatarURL = ''z''\<rparr>,
      AddOutcome ''o1'' 7 \<lparr>op_title = ''Typing'', op_type = Some SKILL\<rparr>,
      AddCourse ''c1'' 8 \<lparr>cp_title = ''Intro'', cp_outcomes = [], cp_creatorId = ''u1''\<rparr>,
      RemoveUser ''u2'']"

text \<open>
  Calls on an empty map that begin with an outcome: the update of the second outcome and
  the second and fourth course ask for a title that is taken (the fourth for the title
  of an outcome), and the user meets the stored outcomes in the pseudo scan and throws.
\<close>

definition titleCalls :: "Call list" where
  "titleCalls =
     [AddOutcome ''o1'' 2 \<lparr>op_title = ''Typing'', op_type = Some SKILL\<rparr>,
      AddCourse ''c1'' 3 \<lparr>cp_title = ''Intro'', cp_outcomes = [''o1''], cp_creatorId = ''o1''\<rparr>,
      AddOutcome ''o2'' 4 \<lparr>op_title = ''Diploma'', op_type = Some CERTIFICATION\<rparr>,
      UpdateOutcome ''o2'' 5 \<lparr>op_title = ''Typing '', op_type = Some SKILL\<rparr>,
      AddCourse ''c2'' 6 \<lparr>cp_title = '' Intro'', cp_outcomes = [], cp_creatorId = ''o1''\<rparr>,
      AddCourse ''c3'' 7
        \<lparr>cp_title = ''Adv'', cp_outcomes = [''o1'', ''o2''], cp_creatorId = ''o2''\<rparr>,
      AddCourse ''c4'' 8 \<lparr>cp_title = ''Diploma'', cp_outcomes = [], cp_creatorId = ''o1''\<rparr>,
      AddUser ''u1'' 9 \<lparr>up_name = ''Ada'', up_pseudo = ''ada99'', up_avatarURL = ''x''\<rparr>]"


section \<open>Unfolding the operations\<close>

lemmas btree_defs = btree_values_def btree_get_def btree_containsKey_def btree_insert_def
  btree_remove_def

lemmas text_defs = trim_def isWhiteSpace_def objectToString_def newline_def quote_def

lemmas user_defs = Let_def addUser_def updateUser_def removeUser_def checkPayload_def
  checkPseudo_def checkUserId_def getUser_def getUsers_def addUser_invalid_def
  addUser_exists_def updateUser_notFound_def updateUser_exists_def updateUser_invalid_def
  removeUser_notFound_def

lemmas outcome_defs = Let_def addOutcome_def updateOutcome_def removeOutcome_def
  checkOutcomePayload_def isExistingOutcomeTitle_def chetOutcomeId_def getOutcome_def
  getOutcomes_def unexpectedPayload_def outcomeTitle_exists_def outcome_notFound_def

lemmas course_defs = Let_def addCourse_def updateCourse_def removeCourse_def
  checkCoursePayload_def isExistingCourseTitle_def checkCourseId_def getCourse_def
  getCourses_def course_exists_def course_notFound_def

lemmas sample_defs = adaUser_def typingOutcome_def introCourse_def someUsers_def
  someOutcomes_def someCourses_def cyUser_def diplomaOutcome_def adaUpdated_def
  typingUpdated_def advCourse_def

text \<open>The sample maps are what the \<open>add\<close> operations build from the empty one.\<close>

lemma someUsers_built:
  "addUser [] ''u1'' 1 \<lparr>up_name = ''Ada'', up_pseudo = ''ada99'', up_avatarURL = ''x''\<rparr>
     = (Returned (Inr adaUser), someUsers)"
  by (simp add: user_defs btree_defs text_defs sample_defs)

lemma someOutcomes_built:
  "addOutcome [] ''o1'' 2 \<lparr>op_title = ''Typing'', op_type = Some SKILL\<rparr>
     = (Returned (Inr typingOutcome), someOutcomes)"
  by (simp add: outcome_defs btree_defs text_defs sample_defs)

lemma someCourses_built:
  "addCourse someOutcomes ''c1'' 3
       \<lparr>cp_title = ''Intro'', cp_outcomes = [''o1''], cp_creatorId = ''o1''\<rparr>
     = (Returned (Inr introCourse), someCourses)"
  by (simp add: course_defs checkUserId_def chetOutcomeId_def btree_defs text_defs sample_defs)

lemma userCalls_run: "run userCalls = [(''u1'', adaUser), (''u3'', cyUser)]"
  by (simp add: run_def userCalls_def user_defs outcome_defs course_defs btree_defs text_defs
      sample_defs)

lemma titleCalls_run:
  "run titleCalls =
     [(''o1'', typingOutcome), (''c1'', introCourse), (''o2'', diplomaOutcome),
      (''c3'', advCourse)]"
  by (simp add: run_def titleCalls_def user_defs outcome_defs course_defs btree_defs text_defs
      sample_defs)


section \<open>Lookups and scans\<close>

lemma checkUserId_getUser:
  "checkUserId usersStorage userId \<Longrightarrow> \<exists>user. getUser usersStorage userId = Some user"
  by (simp add: checkUserId_def getUser_def btree_containsKey_def btree_get_def)

lemma chetOutcomeId_getOutcome:
  "chetOutcomeId outcomesStorage ident
     \<Longrightarrow> \<exists>outcome. btree_get outcomesStorage ident = Some outcome"
  by (simp add: chetOutcomeId_def btree_containsKey_def btree_get_def)

lemma btree_get_insert: "btree_get (btree_insert k v m) k = Some v"
  by (simp add: btree_get_def btree_insert_def update_conv')

text \<open>A scan answers \<open>false\<close> only when every object has the field and none matches.\<close>

lemma checkPseudo_scan_False:
  "checkPseudo_scan xs p = Returned False \<Longrightarrow> Some (trim p) \<notin> set (map pseudoKey xs)"
  by (induction xs) (auto simp add: pseudoKey_def split: option.splits if_splits)

lemma isExistingOutcomeTitle_scan_False:
  "isExistingOutcomeTitle_scan xs t = Returned False
     \<Longrightarrow> Some (trim t) \<notin> set (map titleKey xs)"
  by (induction xs) (auto simp add: titleKey_def split: option.splits if_splits)

lemma isExistingCourseTitle_scan_False:
  "isExistingCourseTitle_scan xs t = Returned False
     \<Longrightarrow> Some (trim t) \<notin> set (map titleKey xs)"
  by (induction xs) (auto simp add: titleKey_def split: option.splits if_splits)

lemma isExistingCourseTitle_scan_titled:
  "isExistingCourseTitle_scan xs t = Returned False \<Longrightarrow> x \<in> set xs \<Longrightarrow> r_title x \<noteq> None"
  by (induction xs) (auto split: option.splits if_splits)

text \<open>While the map holds an object without title, a user for one, no course is added.\<close>

lemma addCourse_beside_untitled:
  assumes "btree_get coursesStorage k = Some object" and "r_title object = None"
  shows "failed (fst (addCourse coursesStorage newId now payload))"
proof (cases "isExistingCourseTitle coursesStorage (cp_title payload)")
  case Threw
  then show ?thesis by (simp add: addCourse_def)
next
  case (Returned found)
  have "object \<in> set (btree_values coursesStorage)"
    using assms(1) by (force simp add: btree_get_def btree_values_def dest: map_of_SomeD)
  then have found
    using Returned assms(2) isExistingCourseTitle_scan_titled
      [of "btree_values coursesStorage" "cp_title payload" object]
    by (cases found) (simp_all add: isExistingCourseTitle_def)
  then show ?thesis using Returned by (simp add: addCourse_def)
qed

lemma checkCoursePayload_scan_iff:
  "checkCoursePayload_scan memory xs \<longleftrightarrow> (\<forall>x \<in> set xs. chetOutcomeId memory x)"
  by (induction xs) auto

lemma checkCoursePayload_iff:
  "checkCoursePayload memory payload \<longleftrightarrow>
     checkUserId memory (cp_creatorId payload)
     \<and> (\<forall>x \<in> set (cp_outcomes payload). chetOutcomeId memory x)"
  by (simp add: checkCoursePayload_def checkCoursePayload_scan_iff)


section \<open>What a successful update stores\<close>

lemma updateUser_merges:
  assumes "getUser usersStorage userId = Some user"
    and "checkPayload payload"
    and "checkPseudo usersStorage (up_pseudo payload) = Returned False"
  shows "updateUser usersStorage userId now payload =
     (Returned (Inr (user\<lparr>r_name := Some (up_name payload),
                          r_pseudo := Some (up_pseudo payload),
                          r_avatarURL := Some (up_avatarURL payload),
                          r_updatedAt := Some now\<rparr>)),
      btree_insert userId
        (user\<lparr>r_name := Some (up_name payload), r_pseudo := Some (up_pseudo payload),
              r_avatarURL := Some (up_avatarURL payload), r_updatedAt := Some now\<rparr>)
        usersStorage)"
  using assms
  by (simp add: updateUser_def checkUserId_def getUser_def btree_containsKey_def btree_get_def
      Let_def)

lemma updateOutcome_merges:
  assumes "getOutcome outcomesStorage ident = Some outcome"
    and "checkOutcomePayload payload"
    and "isExistingOutcomeTitle outcomesStorage (op_title payload) = Returned False
         \<or> (isExistingOutcomeTitle outcomesStorage (op_title payload) = Returned True
            \<and> r_title outcome = Some (op_title payload))"
  shows "updateOutcome outcomesStorage ident now payload =
     (Returned (Inr (outcome\<lparr>r_title := Some (op_title payload),
                             r_type := Some (op_type payload),
                             r_updatedAt := Some now\<rparr>)),
      btree_insert ident
        (outcome\<lparr>r_title := Some (op_title payload), r_type := Some (op_type payload),
                 r_updatedAt := Some now\<rparr>)
        outcomesStorage)"
  using assms
  by (auto simp add: updateOutcome_def chetOutcomeId_def getOutcome_def btree_containsKey_def
      btree_get_def Let_def)


section \<open>Uniqueness is kept by every operation\<close>

lemma btree_get_value_mem:
  "btree_get m x = Some y \<Longrightarrow> f y \<in> set (map f (btree_values m))"
  by (force simp add: btree_get_def btree_values_def dest: map_of_SomeD)

lemma btree_get_insert_other: "i \<noteq> k \<Longrightarrow> btree_get (btree_insert k v m) i = btree_get m i"
  by (simp add: btree_get_def btree_insert_def update_conv')

lemma btree_get_remove:
  "btree_get (snd (btree_remove k m)) i = (if i = k then None else btree_get m i)"
  by (simp add: btree_get_def btree_remove_def delete_conv')

lemma uniqueBy_empty: "uniqueBy f []"
  by (simp add: uniqueBy_def btree_get_def)

lemma uniqueBy_insert_fresh:
  assumes inv: "uniqueBy f m"
    and fresh: "f v = None \<or> f v \<notin> set (map f (btree_values m))"
  shows "uniqueBy f (btree_insert k v m)"
  unfolding uniqueBy_def
proof (intro allI impI)
  fix i j a b
  assume a: "btree_get (btree_insert k v m) i = Some a"
    and b: "btree_get (btree_insert k v m) j = Some b"
    and ij: "i \<noteq> j" and fa: "f a \<noteq> None"
  show "f a \<noteq> f b"
  proof (cases "i = k")
    case True
    then have "a = v" using a by (simp add: btree_get_insert)
    moreover have "btree_get m j = Some b"
      using b ij True by (simp add: btree_get_insert_other)
    then have "f b \<in> set (map f (btree_values m))" by (rule btree_get_value_mem)
    ultimately show ?thesis using fresh fa by metis
  next
    case False
    then have a': "btree_get m i = Some a"
      using a by (simp add: btree_get_insert_other)
    show ?thesis
    proof (cases "j = k")
      case True
      then have "b = v" using b by (simp add: btree_get_insert)
      moreover have "f a \<in> set (map f (btree_values m))"
        using a' by (rule btree_get_value_mem)
      ultimately show ?thesis using fresh fa by metis
    next
      case jk: False
      then have "btree_get m j = Some b"
        using b by (simp add: btree_get_insert_other)
      with inv a' ij fa show ?thesis unfolding uniqueBy_def by blast
    qed
  qed
qed

lemma uniqueBy_insert_same:
  assumes inv: "uniqueBy f m"
    and old: "btree_get m k = Some old"
    and same: "f v = f old"
  shows "uniqueBy f (btree_insert k v m)"
  unfolding uniqueBy_def
proof (intro allI impI)
  fix i j a b
  assume a: "btree_get (btree_insert k v m) i = Some a"
    and b: "btree_get (btree_insert k v m) j = Some b"
    and ij: "i \<noteq> j" and fa: "f a \<noteq> None"
  show "f a \<noteq> f b"
  proof (cases "i = k")
    case True
    then have "a = v" using a by (simp add: btree_get_insert)
    moreover have "btree_get m j = Some b"
      using b ij True by (simp add: btree_get_insert_other)
    ultimately show ?thesis
      using inv old same fa ij True unfolding uniqueBy_def by metis
  next
    case False
    then have a': "btree_get m i = Some a"
      using a by (simp add: btree_get_insert_other)
    show ?thesis
    proof (cases "j = k")
      case True
      then have "b = v" using b by (simp add: btree_get_insert)
      then show ?thesis
        using inv old same fa a' False unfolding uniqueBy_def by metis
    next
      case jk: False
      then have "btree_get m j = Some b"
        using b by (simp add: btree_get_insert_other)
      with inv a' ij fa show ?thesis unfolding uniqueBy_def by blast
    qed
  qed
qed

lemma uniqueBy_remove:
  assumes "uniqueBy f m"
  shows "uniqueBy f (snd (btree_remove k m))"
  using assms unfolding uniqueBy_def
  by (simp add: btree_get_remove split: if_splits)

text \<open>The objects \<open>add\<close> and \<open>update\<close> build, and their unique fields.\<close>

lemma addUser_unique:
  assumes "uniqueFields usersStorage"
  shows "uniqueFields (snd (addUser usersStorage newId now payload))"
proof (cases "checkPseudo usersStorage (up_pseudo payload) = Returned False
    \<and> checkPayload payload")
  case True
  let ?user = "\<lparr>r_id = newId, r_name = Some (up_name payload),
    r_pseudo = Some (up_pseudo payload), r_avatarURL = Some (up_avatarURL payload),
    r_title = None, r_type = None, r_outcomes = None, r_creatorId = None,
    r_createdAt = now, r_updatedAt = None\<rparr>"
  have "pseudoKey ?user \<notin> set (map pseudoKey (btree_values usersStorage))"
    using True checkPseudo_scan_False [of "btree_values usersStorage" "up_pseudo payload"]
    by (simp add: checkPseudo_def pseudoKey_def)
  moreover have "titleKey ?user = None"
    by (simp add: titleKey_def)
  ultimately have "uniqueFields (btree_insert newId ?user usersStorage)"
    using assms by (simp add: uniqueFields_def uniqueBy_insert_fresh)
  then show ?thesis using True by (simp add: addUser_def Let_def)
next
  case False
  then show ?thesis
    using assms by (auto simp add: addUser_def Let_def split: reply.splits)
qed

lemma updateUser_unique:
  assumes "uniqueFields usersStorage"
  shows "uniqueFields (snd (updateUser usersStorage userId now payload))"
proof (cases "checkPseudo usersStorage (up_pseudo payload) = Returned False
    \<and> checkPayload payload \<and> getUser usersStorage userId \<noteq> None")
  case True
  then obtain user where user: "getUser usersStorage userId = Some user" by auto
  let ?updated = "user\<lparr>r_name := Some (up_name payload),
    r_pseudo := Some (up_pseudo payload), r_avatarURL := Some (up_avatarURL payload),
    r_updatedAt := Some now\<rparr>"
  have "pseudoKey ?updated \<notin> set (map pseudoKey (btree_values usersStorage))"
    using True checkPseudo_scan_False [of "btree_values usersStorage" "up_pseudo payload"]
    by (simp add: checkPseudo_def pseudoKey_def)
  then have "uniqueBy pseudoKey (btree_insert userId ?updated usersStorage)"
    using assms by (simp add: uniqueFields_def uniqueBy_insert_fresh)
  moreover have "titleKey ?updated = titleKey user"
    by (simp add: titleKey_def)
  then have "uniqueBy titleKey (btree_insert userId ?updated usersStorage)"
    using assms user by (simp add: uniqueFields_def getUser_def uniqueBy_insert_same)
  ultimately show ?thesis
    using True user
    by (simp add: updateUser_def Let_def uniqueFields_def checkUserId_def getUser_def
        btree_containsKey_def btree_get_def)
next
  case False
  then show ?thesis
    using assms by (auto simp add: updateUser_def Let_def split: reply.splits option.splits)
qed

lemma removeUser_unique:
  assumes "uniqueFields usersStorage"
  shows "uniqueFields (snd (removeUser usersStorage userId))"
  using assms uniqueBy_remove [of pseudoKey usersStorage userId]
    uniqueBy_remove [of titleKey usersStorage userId]
  by (auto simp add: removeUser_def uniqueFields_def split: prod.splits)

lemma addOutcome_unique:
  assumes "uniqueFields outcomesStorage"
  shows "uniqueFields (snd (addOutcome outcomesStorage newId now payload))"
proof (cases "isExistingOutcomeTitle outcomesStorage (op_title payload) = Returned False
    \<and> checkOutcomePayload payload")
  case True
  let ?outcome = "\<lparr>r_id = newId, r_name = None, r_pseudo = None, r_avatarURL = None,
    r_title = Some (op_title payload), r_type = Some (op_type payload), r_outcomes = None,
    r_creatorId = None, r_createdAt = now, r_updatedAt = None\<rparr>"
  have "titleKey ?outcome \<notin> set (map titleKey (btree_values outcomesStorage))"
    using True
      isExistingOutcomeTitle_scan_False [of "btree_values outcomesStorage" "op_title payload"]
    by (simp add: isExistingOutcomeTitle_def titleKey_def)
  moreover have "pseudoKey ?outcome = None"
    by (simp add: pseudoKey_def)
  ultimately have "uniqueFields (btree_insert newId ?outcome outcomesStorage)"
    using assms by (simp add: uniqueFields_def uniqueBy_insert_fresh)
  then show ?thesis using True by (simp add: addOutcome_def Let_def)
next
  case False
  then show ?thesis
    using assms by (auto simp add: addOutcome_def Let_def split: reply.splits)
qed

lemma updateOutcome_unique:
  assumes "uniqueFields outcomesStorage"
  shows "uniqueFields (snd (updateOutcome outcomesStorage ident now payload))"
proof (cases "btree_get outcomesStorage ident")
  case None
  then show ?thesis using assms by (simp add: updateOutcome_def)
next
  case (Some outcome)
  let ?updated = "outcome\<lparr>r_title := Some (op_title payload),
    r_type := Some (op_type payload), r_updatedAt := Some now\<rparr>"
  have pseudo: "uniqueBy pseudoKey (btree_insert ident ?updated outcomesStorage)"
  proof -
    have "pseudoKey ?updated = pseudoKey outcome" by (simp add: pseudoKey_def)
    then show ?thesis
      using assms Some by (simp add: uniqueFields_def uniqueBy_insert_same)
  qed
  show ?thesis
  proof (cases "isExistingOutcomeTitle outcomesStorage (op_title payload)")
    case Threw
    then show ?thesis using assms Some by (simp add: updateOutcome_def)
  next
    case (Returned found)
    show ?thesis
    proof (cases "found \<and> r_title outcome \<noteq> Some (op_title payload)")
      case True
      then show ?thesis using assms Some Returned by (simp add: updateOutcome_def)
    next
      case False
      have "uniqueBy titleKey (btree_insert ident ?updated outcomesStorage)"
      proof (cases found)
        case True
        then have "titleKey ?updated = titleKey outcome"
          using False by (simp add: titleKey_def)
        then show ?thesis
          using assms Some by (simp add: uniqueFields_def uniqueBy_insert_same)
      next
        case notFound: False
        then have "titleKey ?updated \<notin> set (map titleKey (btree_values outcomesStorage))"
          using Returned
            isExistingOutcomeTitle_scan_False
              [of "btree_values outcomesStorage" "op_title payload"]
          by (simp add: isExistingOutcomeTitle_def titleKey_def)
        then show ?thesis
          using assms by (simp add: uniqueFields_def uniqueBy_insert_fresh)
      qed
      then show ?thesis
        using assms Some Returned False pseudo
        by (auto simp add: updateOutcome_def Let_def uniqueFields_def)
    qed
  qed
qed

lemma removeOutcome_unique:
  assumes "uniqueFields outcomesStorage"
  shows "uniqueFields (snd (removeOutcome outcomesStorage ident))"
  using assms uniqueBy_remove [of pseudoKey outcomesStorage ident]
    uniqueBy_remove [of titleKey outcomesStorage ident]
  by (auto simp add: removeOutcome_def uniqueFields_def split: prod.splits)

lemma addCourse_unique:
  assumes "uniqueFields coursesStorage"
  shows "uniqueFields (snd (addCourse coursesStorage newId now payload))"
proof (cases "isExistingCourseTitle coursesStorage (cp_title payload) = Returned False
    \<and> checkCoursePayload coursesStorage payload")
  case True
  let ?course = "\<lparr>r_id = newId, r_name = None, r_pseudo = None, r_avatarURL = None,
    r_title = Some (cp_title payload), r_type = None,
    r_outcomes = Some (cp_outcomes payload), r_creatorId = Some (cp_creatorId payload),
    r_createdAt = now, r_updatedAt = None\<rparr>"
  have "titleKey ?course \<notin> set (map titleKey (btree_values coursesStorage))"
    using True
      isExistingCourseTitle_scan_False [of "btree_values coursesStorage" "cp_title payload"]
    by (simp add: isExistingCourseTitle_def titleKey_def)
  moreover have "pseudoKey ?course = None"
    by (simp add: pseudoKey_def)
  ultimately have "uniqueFields (btree_insert newId ?course coursesStorage)"
    using assms by (simp add: uniqueFields_def uniqueBy_insert_fresh)
  then show ?thesis using True by (simp add: addCourse_def Let_def)
next
  case False
  then show ?thesis
    using assms by (auto simp add: addCourse_def Let_def split: reply.splits)
qed

lemma updateCourse_unique:
  assumes "uniqueFields coursesStorage"
  shows "uniqueFields (snd (updateCourse coursesStorage ident now payload))"
  using assms by (simp add: updateCourse_def)

lemma removeCourse_unique:
  assumes "uniqueFields coursesStorage"
  shows "uniqueFields (snd (removeCourse coursesStorage ident))"
  using assms uniqueBy_remove [of pseudoKey coursesStorage ident]
    uniqueBy_remove [of titleKey coursesStorage ident]
  by (auto simp add: removeCourse_def uniqueFields_def split: prod.splits option.splits)

lemma call_uniqueFields: "uniqueFields memory \<Longrightarrow> uniqueFields (call memory c)"
  by (cases c)
    (simp_all add: addUser_unique updateUser_unique removeUser_unique addOutcome_unique
      updateOutcome_unique removeOutcome_unique addCourse_unique updateCourse_unique
      removeCourse_unique)

lemma foldl_call_uniqueFields:
  "uniqueFields memory \<Longrightarrow> uniqueFields (foldl call memory calls)"
  by (induction calls arbitrary: memory) (simp_all add: call_uniqueFields)

lemma run_uniqueFields: "uniqueFields (run calls)"
proof -
  have "uniqueFields []"
    by (simp add: uniqueFields_def uniqueBy_empty)
  then show ?thesis
    unfolding run_def by (rule foldl_call_uniqueFields)
qed


section \<open>The claims of the specification\<close>

subsection \<open>Updating a course\<close>

text \<open>
  Claim C10. For every id and every payload, \<open>updateCourse\<close> returns an error string,
  the not-found message when the id is stored and the invalid-payload message when it is
  not, and leaves the map as it was; no input reaches the branch that stores.
\<close>

theorem updateCourse_never_succeeds:
  "updateCourse coursesStorage ident now payload =
     (Returned (Inl (if checkCourseId coursesStorage ident then course_notFound ident
                     else unexpectedPayload)),
      coursesStorage)"
  by (simp add: updateCourse_def)

text \<open>
  Claim C1. The specification has \<open>updateCourse\<close> answer "not found" exactly when no
  course is stored under the id. The first guard of the source lacks the negation that
  \<open>removeCourse\<close>, \<open>updateUser\<close> and \<open>updateOutcome\<close> have: the stored course \<open>c1\<close>
  is reported as not found, and the absent id \<open>c9\<close> gets the invalid-payload message.
\<close>

theorem updateCourse_live_id_reports_not_found:
  "getCourse someCourses ''c1'' = Some introCourse
   \<and> updateCourse someCourses ''c1'' 9
         \<lparr>cp_title = ''Intro 2'', cp_outcomes = [''o1''], cp_creatorId = ''u1''\<rparr>
       = (Returned (Inl ''Error: no course with id=c1 found''), someCourses)
   \<and> getCourse someCourses ''c9'' = None
   \<and> updateCourse someCourses ''c9'' 9
         \<lparr>cp_title = ''Intro 2'', cp_outcomes = [''o1''], cp_creatorId = ''u1''\<rparr>
       = (Returned
            (Inl (''Error: unexpected values in payload: '' @ [CHR 0x0A]
                    @ '' [object Object]'')),
          someCourses)"
  by (simp add: course_defs unexpectedPayload_def btree_defs text_defs sample_defs)

text \<open>
  Claim C2. The specification has every update of a stored record with a valid,
  non-conflicting payload succeed and store the merged record. \<open>updateUser\<close> and
  \<open>updateOutcome\<close> do so (lemmas \<open>updateUser_merges\<close> and \<open>updateOutcome_merges\<close>);
  \<open>updateCourse\<close> does not: for the stored course \<open>c1\<close>, a payload that
  \<open>checkCoursePayload\<close> accepts and whose title is new, which \<open>addCourse\<close> would
  store, is refused, and the course stays as it was.
\<close>

theorem updateCourse_rejects_valid_update:
  "getCourse someCourses ''c1'' = Some introCourse
   \<and> checkCoursePayload someCourses
         \<lparr>cp_title = ''Intro 2'', cp_outcomes = [''o1''], cp_creatorId = ''o1''\<rparr>
   \<and> isExistingCourseTitle someCourses ''Intro 2'' = Returned False
   \<and> \<not> failed (fst (addCourse someCourses ''c2'' 9
         \<lparr>cp_title = ''Intro 2'', cp_outcomes = [''o1''], cp_creatorId = ''o1''\<rparr>))
   \<and> fst (updateCourse someCourses ''c1'' 9
         \<lparr>cp_title = ''Intro 2'', cp_outcomes = [''o1''], cp_creatorId = ''o1''\<rparr>)
       = Returned (Inl (course_notFound ''c1''))
   \<and> getCourse (snd (updateCourse someCourses ''c1'' 9
         \<lparr>cp_title = ''Intro 2'', cp_outcomes = [''o1''], cp_creatorId = ''o1''\<rparr>)) ''c1''
       = Some introCourse"
  by (simp add: course_defs checkUserId_def chetOutcomeId_def btree_defs text_defs sample_defs)


subsection \<open>Keeping one's own unique value\<close>

text \<open>
  Claim C4. The specification has an update keep the record's own unique value without
  a duplicate error. \<open>updateOutcome\<close> does not refuse a title that is the stored one
  (lemma \<open>updateOutcome_merges\<close>); \<open>updateUser\<close> calls \<open>checkPseudo\<close> on the whole
  map, so user \<open>u1\<close> cannot be updated while keeping the pseudo \<open>ada99\<close>.
\<close>

theorem updateUser_rejects_own_pseudo:
  "getUser someUsers ''u1'' = Some adaUser
   \<and> r_pseudo adaUser = Some ''ada99''
   \<and> updateUser someUsers ''u1'' 9
         \<lparr>up_name = ''Ada L'', up_pseudo = ''ada99'', up_avatarURL = ''x''\<rparr>
       = (Returned
            (Inl (''Error: can'' @ [CHR 0x27]
                    @ ''t update user cause pseudo=ada99 already exists'')),
          someUsers)"
  by (simp add: user_defs btree_defs text_defs sample_defs)


subsection \<open>Blank fields\<close>

text \<open>
  Claim C5, as stated, fails: \<open>addUser\<close> stores a user whose name is empty, since
  \<open>checkPayload\<close> only asks that the trimmed name and pseudo have more than two
  characters together.
\<close>

theorem addUser_accepts_empty_name:
  "trim (up_name \<lparr>up_name = [], up_pseudo = ''ada99'', up_avatarURL = ''x''\<rparr>) = []
   \<and> addUser [] ''u1'' 1 \<lparr>up_name = [], up_pseudo = ''ada99'', up_avatarURL = ''x''\<rparr>
       = (Returned
            (Inr \<lparr>r_id = ''u1'', r_name = Some [], r_pseudo = Some ''ada99'',
                  r_avatarURL = Some ''x'', r_title = None, r_type = None,
                  r_outcomes = None, r_creatorId = None, r_createdAt = 1,
                  r_updatedAt = None\<rparr>),
          [(''u1'', \<lparr>r_id = ''u1'', r_name = Some [], r_pseudo = Some ''ada99'',
                     r_avatarURL = Some ''x'', r_title = None, r_type = None,
                     r_outcomes = None, r_creatorId = None, r_createdAt = 1,
                     r_updatedAt = None\<rparr>)])"
  by (simp add: user_defs btree_defs text_defs)

text \<open>
  Claim C5, amended. \<open>addOutcome\<close> refuses every payload whose title is blank after
  trimming, with the invalid-payload message and the map unchanged; \<open>addUser\<close>
  refuses, in the same way, every payload whose trimmed name and trimmed pseudo have at
  most two characters together.
\<close>

theorem blank_payload_rejected:
  "(trim (op_title outcomePayload) = [] \<longrightarrow>
      addOutcome outcomesStorage newId now outcomePayload
        = (Returned (Inl unexpectedPayload), outcomesStorage))
   \<and> (length (trim (up_name userPayload)) + length (trim (up_pseudo userPayload)) \<le> 2 \<longrightarrow>
      addUser usersStorage newId now userPayload
        = (Returned (Inl (addUser_invalid userPayload)), usersStorage))"
  by (simp add: addOutcome_def checkOutcomePayload_def addUser_def checkPayload_def)

theorem blank_payload_rejected_witness:
  "trim (op_title \<lparr>op_title = ''   '', op_type = Some SKILL\<rparr>) = []
   \<and> addOutcome someOutcomes ''n1'' 4 \<lparr>op_title = ''   '', op_type = Some SKILL\<rparr>
       = (Returned (Inl unexpectedPayload), someOutcomes)
   \<and> length (trim (up_name \<lparr>up_name = '' '', up_pseudo = ''b'', up_avatarURL = ''y''\<rparr>))
       + length (trim (up_pseudo \<lparr>up_name = '' '', up_pseudo = ''b'', up_avatarURL = ''y''\<rparr>))
       \<le> 2
   \<and> addUser someUsers ''n1'' 4 \<lparr>up_name = '' '', up_pseudo = ''b'', up_avatarURL = ''y''\<rparr>
       = (Returned
            (Inl (addUser_invalid
                    \<lparr>up_name = '' '', up_pseudo = ''b'', up_avatarURL = ''y''\<rparr>)),
          someUsers)"
  using blank_payload_rejected
    [of "\<lparr>op_title = ''   '', op_type = Some SKILL\<rparr>" someOutcomes "''n1''" 4
      "\<lparr>up_name = '' '', up_pseudo = ''b'', up_avatarURL = ''y''\<rparr>" someUsers]
  by (simp add: text_defs)


subsection \<open>References of a course\<close>

text \<open>
  Claim C7. The specification has \<open>addCourse\<close> and \<open>updateCourse\<close> fail with a
  reference error whenever \<open>creatorId\<close> is not the id of a stored user. On the empty
  map, \<open>addOutcome\<close> stores the outcome \<open>o1\<close>; \<open>checkUserId\<close> asks the same map
  and finds that key, so \<open>addCourse\<close> stores a course whose creator is \<open>o1\<close>, an
  object without pseudo that no call of \<open>addUser\<close> wrote. \<open>updateCourse\<close>, given the
  stored course and a creator that is no key of the map at all, answers that the course
  is not found and never looks at the payload.
\<close>

theorem addCourse_accepts_outcome_as_creator:
  "addOutcome [] ''o1'' 2 \<lparr>op_title = ''Typing'', op_type = Some SKILL\<rparr>
     = (Returned (Inr typingOutcome), someOutcomes)
   \<and> r_pseudo typingOutcome = None
   \<and> checkUserId someOutcomes ''o1''
   \<and> addCourse someOutcomes ''c1'' 3
         \<lparr>cp_title = ''Intro'', cp_outcomes = [''o1''], cp_creatorId = ''o1''\<rparr>
       = (Returned (Inr introCourse), someCourses)
   \<and> r_creatorId introCourse = Some ''o1''
   \<and> \<not> checkUserId someCourses ''ghost''
   \<and> updateCourse someCourses ''c1'' 9
         \<lparr>cp_title = ''Intro 2'', cp_outcomes = [''o1''], cp_creatorId = ''ghost''\<rparr>
       = (Returned (Inl ''Error: no course with id=c1 found''), someCourses)"
  by (simp add: outcome_defs course_defs checkUserId_def btree_defs text_defs sample_defs)


subsection \<open>Errors apply nothing\<close>

text \<open>
  Claim C8. Whenever an \<open>add\<close>, \<open>update\<close> or \<open>remove\<close> call of the User, Outcome or
  Course module returns an error string, the map after the call is the map before it;
  the same holds when the call throws. (The Session module declares its storage and no
  operation.)
\<close>

theorem error_leaves_storage_unchanged:
  "(failed (fst (addUser usersStorage newId now userPayload)) \<longrightarrow>
      snd (addUser usersStorage newId now userPayload) = usersStorage)
   \<and> (failed (fst (updateUser usersStorage userId now userPayload)) \<longrightarrow>
      snd (updateUser usersStorage userId now userPayload) = usersStorage)
   \<and> (failed (fst (removeUser usersStorage userId)) \<longrightarrow>
      snd (removeUser usersStorage userId) = usersStorage)
   \<and> (failed (fst (addOutcome outcomesStorage newId now outcomePayload)) \<longrightarrow>
      snd (addOutcome outcomesStorage newId now outcomePayload) = outcomesStorage)
   \<and> (failed (fst (updateOutcome outcomesStorage outcomeId now outcomePayload)) \<longrightarrow>
      snd (updateOutcome outcomesStorage outcomeId now outcomePayload) = outcomesStorage)
   \<and> (failed (fst (removeOutcome outcomesStorage outcomeId)) \<longrightarrow>
      snd (removeOutcome outcomesStorage outcomeId) = outcomesStorage)
   \<and> (failed (fst (addCourse coursesStorage newId now coursePayload)) \<longrightarrow>
      snd (addCourse coursesStorage newId now coursePayload) = coursesStorage)
   \<and> (failed (fst (updateCourse coursesStorage courseId now coursePayload)) \<longrightarrow>
      snd (updateCourse coursesStorage courseId now coursePayload) = coursesStorage)
   \<and> (failed (fst (removeCourse coursesStorage courseId)) \<longrightarrow>
      snd (removeCourse coursesStorage courseId) = coursesStorage)"
proof (intro conjI impI)
  assume "failed (fst (addUser usersStorage newId now userPayload))"
  then show "snd (addUser usersStorage newId now userPayload) = usersStorage"
    by (simp add: addUser_def Let_def split: if_splits reply.splits)
next
  assume "failed (fst (updateUser usersStorage userId now userPayload))"
  then show "snd (updateUser usersStorage userId now userPayload) = usersStorage"
    by (simp add: updateUser_def Let_def split: if_splits option.splits reply.splits)
next
  assume "failed (fst (removeUser usersStorage userId))"
  then show "snd (removeUser usersStorage userId) = usersStorage"
    by (simp add: removeUser_def split: if_splits prod.splits)
next
  assume "failed (fst (addOutcome outcomesStorage newId now outcomePayload))"
  then show "snd (addOutcome outcomesStorage newId now outcomePayload) = outcomesStorage"
    by (simp add: addOutcome_def Let_def split: if_splits reply.splits)
next
  assume "failed (fst (updateOutcome outcomesStorage outcomeId now outcomePayload))"
  then show "snd (updateOutcome outcomesStorage outcomeId now outcomePayload) = outcomesStorage"
    by (simp add: updateOutcome_def Let_def split: if_splits option.splits reply.splits)
next
  assume "failed (fst (removeOutcome outcomesStorage outcomeId))"
  then show "snd (removeOutcome outcomesStorage outcomeId) = outcomesStorage"
    by (simp add: removeOutcome_def split: if_splits prod.splits)
next
  assume "failed (fst (addCourse coursesStorage newId now coursePayload))"
  then show "snd (addCourse coursesStorage newId now coursePayload) = coursesStorage"
    by (simp add: addCourse_def Let_def split: if_splits reply.splits)
next
  show "snd (updateCourse coursesStorage courseId now coursePayload) = coursesStorage"
    by (simp add: updateCourse_def)
next
  assume "failed (fst (removeCourse coursesStorage courseId))"
  then show "snd (removeCourse coursesStorage courseId) = coursesStorage"
    by (simp add: removeCourse_def checkCourseId_def btree_containsKey_def btree_remove_def
        split: if_splits option.splits)
qed

theorem error_leaves_storage_unchanged_witness:
  "addUser someUsers ''n1'' 9 \<lparr>up_name = ''Bea'', up_pseudo = ''ada99'', up_avatarURL = ''y''\<rparr>
     = (Returned
          (Inl (''Error: can'' @ [CHR 0x27] @ ''t create user cause ada99 already exists'')),
        someUsers)
   \<and> updateUser someUsers ''u9'' 9
         \<lparr>up_name = ''Bea'', up_pseudo = ''ada99'', up_avatarURL = ''y''\<rparr>
       = (Returned (Inl (updateUser_notFound ''u9'')), someUsers)
   \<and> removeUser someUsers ''u9'' = (Returned (Inl (removeUser_notFound ''u9'')), someUsers)
   \<and> addOutcome someOutcomes ''n1'' 9 \<lparr>op_title = ''   '', op_type = Some SKILL\<rparr>
       = (Returned (Inl unexpectedPayload), someOutcomes)
   \<and> updateOutcome someOutcomes ''o9'' 9 \<lparr>op_title = ''   '', op_type = Some SKILL\<rparr>
       = (Returned (Inl ''Error: no outcome found with id=o9''), someOutcomes)
   \<and> removeOutcome someOutcomes ''o9''
       = (Returned (Inl ''Error: no outcome found with id=o9''), someOutcomes)
   \<and> addCourse someCourses ''n1'' 9
         \<lparr>cp_title = ''Adv'', cp_outcomes = [''nonexistent-id''], cp_creatorId = ''o1''\<rparr>
       = (Returned (Inl unexpectedPayload), someCourses)
   \<and> updateCourse someCourses ''c9'' 9
         \<lparr>cp_title = ''Adv'', cp_outcomes = [''nonexistent-id''], cp_creatorId = ''o1''\<rparr>
       = (Returned (Inl unexpectedPayload), someCourses)
   \<and> removeCourse someCourses ''c9''
       = (Returned (Inl ''Error: no course with id=c9 found''), someCourses)"
proof -
  have errors:
    "failed (fst (addUser someUsers ''n1'' 9
       \<lparr>up_name = ''Bea'', up_pseudo = ''ada99'', up_avatarURL = ''y''\<rparr>))"
    "failed (fst (updateUser someUsers ''u9'' 9
       \<lparr>up_name = ''Bea'', up_pseudo = ''ada99'', up_avatarURL = ''y''\<rparr>))"
    "failed (fst (removeUser someUsers ''u9''))"
    "failed (fst (addOutcome someOutcomes ''n1'' 9
       \<lparr>op_title = ''   '', op_type = Some SKILL\<rparr>))"
    "failed (fst (updateOutcome someOutcomes ''o9'' 9
       \<lparr>op_title = ''   '', op_type = Some SKILL\<rparr>))"
    "failed (fst (removeOutcome someOutcomes ''o9''))"
    "failed (fst (addCourse someCourses ''n1'' 9
       \<lparr>cp_title = ''Adv'', cp_outcomes = [''nonexistent-id''], cp_creatorId = ''o1''\<rparr>))"
    "failed (fst (updateCourse someCourses ''c9'' 9
       \<lparr>cp_title = ''Adv'', cp_outcomes = [''nonexistent-id''], cp_creatorId = ''o1''\<rparr>))"
    "failed (fst (removeCourse someCourses ''c9''))"
    by (simp_all add: user_defs outcome_defs course_defs btree_defs text_defs sample_defs)
  have results:
    "fst (addUser someUsers ''n1'' 9
       \<lparr>up_name = ''Bea'', up_pseudo = ''ada99'', up_avatarURL = ''y''\<rparr>)
     = Returned
         (Inl (''Error: can'' @ [CHR 0x27] @ ''t create user cause ada99 already exists''))"
    "fst (updateUser someUsers ''u9'' 9
       \<lparr>up_name = ''Bea'', up_pseudo = ''ada99'', up_avatarURL = ''y''\<rparr>)
     = Returned (Inl (updateUser_notFound ''u9''))"
    "fst (removeUser someUsers ''u9'') = Returned (Inl (removeUser_notFound ''u9''))"
    "fst (addOutcome someOutcomes ''n1'' 9 \<lparr>op_title = ''   '', op_type = Some SKILL\<rparr>)
     = Returned (Inl unexpectedPayload)"
    "fst (updateOutcome someOutcomes ''o9'' 9 \<lparr>op_title = ''   '', op_type = Some SKILL\<rparr>)
     = Returned (Inl ''Error: no outcome found with id=o9'')"
    "fst (removeOutcome someOutcomes ''o9'')
     = Returned (Inl ''Error: no outcome found with id=o9'')"
    "fst (addCourse someCourses ''n1'' 9
       \<lparr>cp_title = ''Adv'', cp_outcomes = [''nonexistent-id''], cp_creatorId = ''o1''\<rparr>)
     = Returned (Inl unexpectedPayload)"
    "fst (updateCourse someCourses ''c9'' 9
       \<lparr>cp_title = ''Adv'', cp_outcomes = [''nonexistent-id''], cp_creatorId = ''o1''\<rparr>)
     = Returned (Inl unexpectedPayload)"
    "fst (removeCourse someCourses ''c9'')
     = Returned (Inl ''Error: no course with id=c9 found'')"
    by (simp_all add: user_defs outcome_defs course_defs btree_defs text_defs sample_defs)
  show ?thesis
    using errors results
      error_leaves_storage_unchanged
        [of someUsers "''n1''" 9
          "\<lparr>up_name = ''Bea'', up_pseudo = ''ada99'', up_avatarURL = ''y''\<rparr>" "''u9''"
          someOutcomes "\<lparr>op_title = ''   '', op_type = Some SKILL\<rparr>" "''o9''" someCourses
          "\<lparr>cp_title = ''Adv'', cp_outcomes = [''nonexistent-id''], cp_creatorId = ''o1''\<rparr>"
          "''c9''"]
    by (simp add: prod_eq_iff)
qed


subsection \<open>What an update never changes\<close>

text \<open>
  Claim C9. Every successful \<open>updateUser\<close> or \<open>updateOutcome\<close> call is made on a
  stored record, and the record it returns, which is also the one then stored under the
  id, has the \<open>id\<close> and the \<open>createdAt\<close> of the record stored before. (No call
  of \<open>updateCourse\<close> is successful: both of its guards return an error string.)
\<close>

theorem update_keeps_id_and_createdAt:
  "(updateUser usersStorage userId now userPayload = (Returned (Inr user'), usersStorage')
      \<longrightarrow>
      (\<exists>user. getUser usersStorage userId = Some user
         \<and> r_id user' = r_id user \<and> r_createdAt user' = r_createdAt user
         \<and> getUser usersStorage' userId = Some user'))
   \<and> (updateOutcome outcomesStorage outcomeId now outcomePayload
        = (Returned (Inr outcome'), outcomesStorage') \<longrightarrow>
      (\<exists>outcome. getOutcome outcomesStorage outcomeId = Some outcome
         \<and> r_id outcome' = r_id outcome \<and> r_createdAt outcome' = r_createdAt outcome
         \<and> getOutcome outcomesStorage' outcomeId = Some outcome'))"
  by (auto simp add: updateUser_def updateOutcome_def getUser_def getOutcome_def Let_def
      btree_get_insert split: if_splits option.splits reply.splits)

theorem update_keeps_id_and_createdAt_witness:
  "updateUser someUsers ''u1'' 9
       \<lparr>up_name = ''Ada L'', up_pseudo = ''adaL'', up_avatarURL = ''y''\<rparr>
     = (Returned (Inr adaUpdated), [(''u1'', adaUpdated)])
   \<and> getUser someUsers ''u1'' = Some adaUser
   \<and> r_id adaUpdated = r_id adaUser
   \<and> r_createdAt adaUpdated = r_createdAt adaUser
   \<and> getUser [(''u1'', adaUpdated)] ''u1'' = Some adaUpdated
   \<and> updateOutcome someOutcomes ''o1'' 9
         \<lparr>op_title = ''Typing'', op_type = Some CERTIFIED_SKILL\<rparr>
       = (Returned (Inr typingUpdated), [(''o1'', typingUpdated)])
   \<and> getOutcome someOutcomes ''o1'' = Some typingOutcome
   \<and> r_id typingUpdated = r_id typingOutcome
   \<and> r_createdAt typingUpdated = r_createdAt typingOutcome
   \<and> getOutcome [(''o1'', typingUpdated)] ''o1'' = Some typingUpdated"
proof -
  have user: "updateUser someUsers ''u1'' 9
       \<lparr>up_name = ''Ada L'', up_pseudo = ''adaL'', up_avatarURL = ''y''\<rparr>
     = (Returned (Inr adaUpdated), [(''u1'', adaUpdated)])"
    by (simp add: user_defs btree_defs text_defs sample_defs)
  have outcome: "updateOutcome someOutcomes ''o1'' 9
       \<lparr>op_title = ''Typing'', op_type = Some CERTIFIED_SKILL\<rparr>
     = (Returned (Inr typingUpdated), [(''o1'', typingUpdated)])"
    by (simp add: outcome_defs btree_defs text_defs sample_defs)
  have before: "getUser someUsers ''u1'' = Some adaUser"
    "getOutcome someOutcomes ''o1'' = Some typingOutcome"
    by (simp_all add: getUser_def getOutcome_def btree_get_def someUsers_def someOutcomes_def)
  show ?thesis
    using user outcome before
      update_keeps_id_and_createdAt
        [of someUsers "''u1''" 9
          "\<lparr>up_name = ''Ada L'', up_pseudo = ''adaL'', up_avatarURL = ''y''\<rparr>"
          adaUpdated "[(''u1'', adaUpdated)]"
          someOutcomes "''o1''" "\<lparr>op_title = ''Typing'', op_type = Some CERTIFIED_SKILL\<rparr>"
          typingUpdated "[(''o1'', typingUpdated)]"]
    by simp
qed


subsection \<open>Unique pseudo and titles\<close>

text \<open>
  Claim C6. After any sequence of \<open>add\<close>, \<open>update\<close> and \<open>remove\<close> calls that starts
  from the empty map, two records stored under different ids never agree on the trimmed
  unique field: two records read by \<open>getUser\<close> that have a pseudo differ in it, and two
  records read by \<open>getOutcome\<close>, or by \<open>getCourse\<close>, that have a title differ in it.
  The calls that throw are part of the sequence and change nothing.
\<close>

theorem unique_fields_after_any_calls:
  "(getUser (run calls) userId = Some user \<and> getUser (run calls) userId' = Some user'
      \<and> userId \<noteq> userId' \<and> r_pseudo user = Some pseudo \<and> r_pseudo user' = Some pseudo'
      \<longrightarrow> trim pseudo \<noteq> trim pseudo')
   \<and> (getOutcome (run calls) outcomeId = Some outcome
      \<and> getOutcome (run calls) outcomeId' = Some outcome' \<and> outcomeId \<noteq> outcomeId'
      \<and> r_title outcome = Some title \<and> r_title outcome' = Some title'
      \<longrightarrow> trim title \<noteq> trim title')
   \<and> (getCourse (run calls) courseId = Some course
      \<and> getCourse (run calls) courseId' = Some course' \<and> courseId \<noteq> courseId'
      \<and> r_title course = Some courseTitle \<and> r_title course' = Some courseTitle'
      \<longrightarrow> trim courseTitle \<noteq> trim courseTitle')"
proof -
  have "uniqueFields (run calls)"
    by (rule run_uniqueFields)
  then have pseudos: "uniqueBy pseudoKey (run calls)"
    and titles: "uniqueBy titleKey (run calls)"
    by (simp_all add: uniqueFields_def)
  have first: "trim pseudo \<noteq> trim pseudo'"
    if "getUser (run calls) userId = Some user" "getUser (run calls) userId' = Some user'"
      "userId \<noteq> userId'" "r_pseudo user = Some pseudo" "r_pseudo user' = Some pseudo'"
  proof -
    have "pseudoKey user \<noteq> pseudoKey user'"
      using pseudos that unfolding uniqueBy_def getUser_def pseudoKey_def by fastforce
    then show ?thesis using that by (simp add: pseudoKey_def)
  qed
  have second: "trim t \<noteq> trim t'"
    if "btree_get (run calls) i = Some a" "btree_get (run calls) j = Some b"
      "i \<noteq> j" "r_title a = Some t" "r_title b = Some t'" for i j a b t t'
  proof -
    have "titleKey a \<noteq> titleKey b"
      using titles that unfolding uniqueBy_def titleKey_def by fastforce
    then show ?thesis using that by (simp add: titleKey_def)
  qed
  show ?thesis
    using first second [of outcomeId outcome outcomeId' outcome' title title']
      second [of courseId course courseId' course' courseTitle courseTitle']
    by (simp add: getOutcome_def getCourse_def)
qed

theorem unique_fields_after_any_calls_witness:
  "getUser (run userCalls) ''u1'' = Some adaUser
   \<and> getUser (run userCalls) ''u3'' = Some cyUser
   \<and> ''u1'' \<noteq> ''u3''
   \<and> r_pseudo adaUser = Some ''ada99''
   \<and> r_pseudo cyUser = Some ''cy7''
   \<and> trim ''ada99'' \<noteq> trim ''cy7''
   \<and> getOutcome (run titleCalls) ''o1'' = Some typingOutcome
   \<and> getOutcome (run titleCalls) ''o2'' = Some diplomaOutcome
   \<and> ''o1'' \<noteq> ''o2''
   \<and> r_title typingOutcome = Some ''Typing''
   \<and> r_title diplomaOutcome = Some ''Diploma''
   \<and> trim ''Typing'' \<noteq> trim ''Diploma''
   \<and> getCourse (run titleCalls) ''c1'' = Some introCourse
   \<and> getCourse (run titleCalls) ''c3'' = Some advCourse
   \<and> ''c1'' \<noteq> ''c3''
   \<and> r_title introCourse = Some ''Intro''
   \<and> r_title advCourse = Some ''Adv''
   \<and> trim ''Intro'' \<noteq> trim ''Adv''"
proof -
  have stored:
    "getUser (run userCalls) ''u1'' = Some adaUser"
    "getUser (run userCalls) ''u3'' = Some cyUser"
    "getOutcome (run titleCalls) ''o1'' = Some typingOutcome"
    "getOutcome (run titleCalls) ''o2'' = Some diplomaOutcome"
    "getCourse (run titleCalls) ''c1'' = Some introCourse"
    "getCourse (run titleCalls) ''c3'' = Some advCourse"
    by (simp_all add: userCalls_run titleCalls_run getUser_def getOutcome_def getCourse_def
        btree_get_def)
  have fields:
    "r_pseudo adaUser = Some ''ada99''" "r_pseudo cyUser = Some ''cy7''"
    "r_title typingOutcome = Some ''Typing''" "r_title diplomaOutcome = Some ''Diploma''"
    "r_title introCourse = Some ''Intro''" "r_title advCourse = Some ''Adv''"
    by (simp_all add: sample_defs)
  show ?thesis
    using stored fields
      unique_fields_after_any_calls
        [of userCalls "''u1''" adaUser "''u3''" cyUser "''ada99''" "''cy7''"]
      unique_fields_after_any_calls
        [of titleCalls _ _ _ _ _ _ "''o1''" typingOutcome "''o2''" diplomaOutcome
          "''Typing''" "''Diploma''" "''c1''" introCourse "''c3''" advCourse
          "''Intro''" "''Adv''"]
    by simp
qed

end
